theory Spec2Isabelle
  imports Main "HOL-Library.Multiset"
begin

section \<open>Values shared by the request handlers\<close>

text \<open>
  A Python value as far as the download handler looks at it: a text or a boolean.
  Equality between a text and a boolean is false in Python, as it is between the
  constructors here.
\<close>

datatype pyvalue = Str string | Bool bool

text \<open>
  A request's \<open>GET\<close> and \<open>POST\<close> are query dictionaries: the key/value pairs in the order
  they were sent. \<open>QueryDict.get(key, default)\<close> gives the last value sent for the key, and
  the default when the key was not sent at all.
\<close>

type_synonym QueryDict = "(string \<times> string) list"

definition QueryDict_lookup :: "QueryDict \<Rightarrow> string \<Rightarrow> string option" where
  "QueryDict_lookup q key = map_of (rev q) key"

definition QueryDict_get :: "QueryDict \<Rightarrow> string \<Rightarrow> pyvalue \<Rightarrow> pyvalue" where
  "QueryDict_get q key dflt =
     (case QueryDict_lookup q key of Some v \<Rightarrow> Str v | None \<Rightarrow> dflt)"

record auth_user =
  username :: string
  full_name :: "string option"

record request =
  GET :: QueryDict
  POST :: QueryDict
  request_user :: auth_user

section \<open>Document version download: \<open>DocumentVersionDownloadView\<close>\<close>

text \<open>
  \<open>get_item_filename\<close>, lines 59 to 63: the raw value of the parameter, read from the
  query string with the form body's value (itself defaulting to \<open>False\<close>) as default.
\<close>

definition raw_preserve_extension :: "request \<Rightarrow> pyvalue" where
  "raw_preserve_extension req =
     QueryDict_get (GET req) ''preserve_extension''
       (QueryDict_get (POST req) ''preserve_extension'' (Bool False))"

text \<open>Line 65: the comparison against the two literals.\<close>

definition is_true_literal :: "pyvalue \<Rightarrow> bool" where
  "is_true_literal v = (v = Str ''true'' \<or> v = Str ''True'')"

definition preserve_extension :: "request \<Rightarrow> bool" where
  "preserve_extension req = is_true_literal (raw_preserve_extension req)"

text \<open>
  Line 67: the file name is the item's rendered string. \<open>get_rendered_string\<close> belongs to
  the document version model, which is outside the files at hand, so it is a parameter.
\<close>

definition get_item_filename :: "('item \<Rightarrow> bool \<Rightarrow> string) \<Rightarrow> request \<Rightarrow> 'item \<Rightarrow> string" where
  "get_item_filename get_rendered_string req item =
     get_rendered_string item (preserve_extension req)"

section \<open>Reviews: \<open>Review.get_user_label\<close>\<close>

text \<open>
  Python's truth test of what \<open>get_full_name()\<close> returns: \<open>None\<close> and the empty text are
  false, every other text is true.
\<close>

definition truthy :: "string option \<Rightarrow> bool" where
  "truthy v = (case v of None \<Rightarrow> False | Some s \<Rightarrow> s \<noteq> [])"

definition get_full_name :: "auth_user \<Rightarrow> string option" where
  "get_full_name u = full_name u"

definition get_user_label :: "auth_user \<Rightarrow> string option" where
  "get_user_label u =
     (if truthy (get_full_name u) then get_full_name u else Some (username u))"

section \<open>The state the handlers and the model methods act on\<close>

type_synonym pk = nat
type_synonym timestamp = nat

text \<open>
  What a call can raise. \<open>Exception\<close> is an instance of Python's class \<open>Exception\<close> (or of
  a subclass of it) with the description its \<open>__str__\<close> gives. \<open>BaseException\<close> is an
  exception that is not an instance of \<open>Exception\<close>: \<open>KeyboardInterrupt\<close>, \<open>SystemExit\<close>,
  \<open>GeneratorExit\<close>. \<open>ExceptionStrRaises\<close> is an instance of \<open>Exception\<close> whose \<open>__str__\<close>
  raises the exception given instead of returning a text.
\<close>

datatype exception =
  Exception string
  | BaseException string
  | ExceptionStrRaises exception

text \<open>\<open>isinstance(exception, Exception)\<close>, the test of the clause \<open>except Exception\<close>.\<close>

fun isinstance_Exception :: "exception \<Rightarrow> bool" where
  "isinstance_Exception (Exception description) = True"
| "isinstance_Exception (BaseException description) = False"
| "isinstance_Exception (ExceptionStrRaises raised) = True"

text \<open>
  \<open>'%s' % exception\<close> calls the exception's \<open>__str__\<close>: it gives the description, or
  raises what \<open>__str__\<close> raises.
\<close>

fun str :: "exception \<Rightarrow> exception + string" where
  "str (Exception description) = Inr description"
| "str (BaseException description) = Inr description"
| "str (ExceptionStrRaises raised) = Inl raised"

text \<open>
  A document version as the views use it: its primary key, the document it belongs to,
  its timestamp and the text \<open>'%s' % version\<close> gives. The model class
  \<open>DocumentVersion\<close> is outside the files at hand.
\<close>

record document_version =
  version_pk :: pk
  version_document :: pk
  timestamp :: timestamp
  version_str :: string

text \<open>The fields of \<open>Review\<close>, lines 27 to 39. An instance that was never saved has no key.\<close>

record review =
  review_pk :: "pk option"
  document :: pk
  user :: auth_user
  addlcomments :: string
  submit_date :: "timestamp option"

datatype event_type =
  event_document_review_created
  | event_document_review_deleted
  | event_document_review_edited
  | event_document_view

datatype entity = EUser auth_user | EDocument pk | EReview review

text \<open>An entry of the audit log: the event with its actor, action object and target.\<close>

record action =
  verb :: event_type
  actor :: "entity option"
  action_object :: "entity option"
  target :: "entity option"

record task =
  task_name :: string
  kwargs :: "(string \<times> pk) list"

datatype level = SUCCESS | ERROR

record message =
  level :: level
  message_text :: string

record world =
  review_rows :: "pk \<rightharpoonup> review"
  next_pk :: pk
  now :: timestamp
  document_versions :: "document_version list"
  actions :: "action list"
  recent_documents :: "(auth_user \<times> pk) set"
  task_queue :: "task list"
  messages :: "message list"

text \<open>
  A call that may raise and may change the state: the outcome (\<open>Inl\<close> the exception
  raised) with the state the call leaves, which an exception does not roll back.
\<close>

type_synonym 'a effect = "world \<Rightarrow> (exception + 'a) \<times> world"

text \<open>The message framework: \<open>messages.success\<close> and \<open>messages.error\<close> add a notification.\<close>

definition messages_success :: "string \<Rightarrow> world \<Rightarrow> world" where
  "messages_success m w = w\<lparr>messages := messages w @ [\<lparr>level = SUCCESS, message_text = m\<rparr>]\<rparr>"

definition messages_error :: "string \<Rightarrow> world \<Rightarrow> world" where
  "messages_error m w = w\<lparr>messages := messages w @ [\<lparr>level = ERROR, message_text = m\<rparr>]\<rparr>"

text \<open>
  Modelled from the spec: the audit-event emission service (\<open>commit\<close> of an event type, in
  the events app, outside the files at hand) records one actor / action-object / target
  triple per call.
\<close>

definition event_commit ::
  "event_type \<Rightarrow> entity option \<Rightarrow> entity option \<Rightarrow> entity option \<Rightarrow> world \<Rightarrow> world" where
  "event_commit e a ao t w =
     w\<lparr>actions := actions w @ [\<lparr>verb = e, actor = a, action_object = ao, target = t\<rparr>]\<rparr>"

text \<open>
  Modelled from the spec: \<open>Document.add_as_recent_document_for_user\<close> (the documents'
  model, outside the files at hand) marks the document as recently accessed for the user.
\<close>

definition add_as_recent_document_for_user :: "pk \<Rightarrow> auth_user \<Rightarrow> world \<Rightarrow> world" where
  "add_as_recent_document_for_user d u w =
     w\<lparr>recent_documents := insert (u, d) (recent_documents w)\<rparr>"

text \<open>
  The task queue: \<open>apply_async\<close> of \<open>task_update_page_count\<close> puts one job with the
  keyword arguments given on the queue.
\<close>

definition apply_async :: "string \<Rightarrow> (string \<times> pk) list \<Rightarrow> world \<Rightarrow> world" where
  "apply_async name kw w = w\<lparr>task_queue := task_queue w @ [\<lparr>task_name = name, kwargs = kw\<rparr>]\<rparr>"

section \<open>Document version list: \<open>DocumentVersionListView\<close>\<close>

text \<open>Lines 75 to 78. The external object is the document the URL names.\<close>

definition get_document :: "pk \<Rightarrow> request \<Rightarrow> world \<Rightarrow> pk \<times> world" where
  "get_document external_object req w =
     (external_object, add_as_recent_document_for_user external_object (request_user req) w)"

text \<open>The related manager \<open>document.versions\<close>: the versions whose document is this one.\<close>

definition versions :: "pk \<Rightarrow> world \<Rightarrow> document_version list" where
  "versions d w = filter (\<lambda>v. version_document v = d) (document_versions w)"

text \<open>\<open>order_by('-timestamp')\<close>: the rows by timestamp, the largest first.\<close>

definition order_by_desc :: "('a \<Rightarrow> timestamp) \<Rightarrow> 'a list \<Rightarrow> 'a list" where
  "order_by_desc f xs = rev (sort_key f xs)"

text \<open>Lines 89 and 90.\<close>

definition get_source_queryset ::
  "pk \<Rightarrow> request \<Rightarrow> world \<Rightarrow> document_version list \<times> world" where
  "get_source_queryset external_object req w =
     (case get_document external_object req w of
        (d, w') \<Rightarrow> (order_by_desc timestamp (versions d w'), w'))"

section \<open>Document version revert: \<open>DocumentVersionRevertView\<close>\<close>

text \<open>
  Lines 110 to 122. The version's \<open>revert\<close> is outside the files at hand and is a
  parameter: any operation that may raise and may change the state. The \<open>except\<close>
  clause catches instances of \<open>Exception\<close> only, anything else propagates; the error text
  is formatted inside the handler of the clause, so an exception raised while
  formatting propagates too.
\<close>

definition view_action ::
  "(document_version \<Rightarrow> auth_user \<Rightarrow> unit effect) \<Rightarrow> document_version \<Rightarrow> request \<Rightarrow> unit effect" where
  "view_action revert obj req w =
     (case revert obj (request_user req) w of
        (Inr _, w') \<Rightarrow>
          (Inr (), messages_success ''Document version reverted successfully'' w')
      | (Inl exception, w') \<Rightarrow>
          if isinstance_Exception exception
          then (case str exception of
                  Inr description \<Rightarrow>
                    (Inr (),
                     messages_error (''Error reverting document version; '' @ description) w')
                | Inl raised \<Rightarrow> (Inl raised, w'))
          else (Inl exception, w'))"

section \<open>Page count recalculation: \<open>DocumentVersionUpdatePageCountView\<close>\<close>

datatype context_value = CText string | CObject "document_version option"

text \<open>\<open>ungettext\<close> with no translation active: the singular for one, the plural otherwise.\<close>

definition ungettext :: "string \<Rightarrow> string \<Rightarrow> nat \<Rightarrow> string" where
  "ungettext singular plural number = (if number = 1 then singular else plural)"

text \<open>\<open>queryset.first()\<close>: the first object, \<open>None\<close> for an empty selection.\<close>

definition first :: "'a list \<Rightarrow> 'a option" where
  "first xs = (case xs of [] \<Rightarrow> None | x # _ \<Rightarrow> Some x)"

definition format_version :: "document_version option \<Rightarrow> string" where
  "format_version v = (case v of None \<Rightarrow> ''None'' | Some x \<Rightarrow> version_str x)"

text \<open>Lines 135 to 156; the context is a dictionary, \<open>update\<close> overrides its keys.\<close>

definition get_extra_context :: "document_version list \<Rightarrow> (string \<rightharpoonup> context_value)" where
  "get_extra_context queryset =
     (let result = [''title'' \<mapsto> CText (ungettext
            ''Recalculate the page count of the selected document version?''
            ''Recalculate the page count of the selected document versions?''
            (length queryset))]
      in if length queryset = 1
         then result ++ [''object'' \<mapsto> CObject (first queryset),
                ''title'' \<mapsto> CText (''Recalculate the page count of the document version: ''
                    @ format_version (first queryset) @ ''?'')]
         else result)"

text \<open>Lines 158 to 161.\<close>

definition object_action :: "document_version \<Rightarrow> world \<Rightarrow> world" where
  "object_action instance w =
     apply_async ''task_update_page_count'' [(''version_id'', version_pk instance)] w"

text \<open>
  Modelled from the spec: the generic multiple-object confirm view (the common app's
  generics, outside the files at hand) runs the object action once for each selected
  version, in the order of the selection.
\<close>

fun multiple_object_view_action :: "document_version list \<Rightarrow> world \<Rightarrow> world" where
  "multiple_object_view_action [] w = w"
| "multiple_object_view_action (instance # rest) w =
     multiple_object_view_action rest (object_action instance w)"

section \<open>Document version preview: \<open>DocumentVersionView\<close>\<close>

text \<open>
  Lines 169 to 180. The generic detail view's \<open>dispatch\<close> is a parameter: it either
  raises or gives the response. \<open>get_object()\<close> is the version the URL names.
\<close>

definition dispatch ::
  "(request \<Rightarrow> 'response effect) \<Rightarrow> document_version \<Rightarrow> request \<Rightarrow> 'response effect" where
  "dispatch super_dispatch obj req w =
     (case super_dispatch req w of
        (Inl exception, w') \<Rightarrow> (Inl exception, w')
      | (Inr result, w') \<Rightarrow>
          (Inr result,
           event_commit event_document_view
             (Some (EUser (request_user req))) None (Some (EDocument (version_document obj)))
             (add_as_recent_document_for_user (version_document obj) (request_user req) w')))"

section \<open>Reviews: fields, \<open>Review.save\<close> and \<open>Review.delete\<close>\<close>

text \<open>
  The options of a model field that the declarations of lines 27 to 39 set. A date field
  declared with \<open>auto_now\<close> or \<open>auto_now_add\<close> is not editable.
\<close>

record field_options =
  editable :: bool
  auto_now :: bool
  auto_now_add :: bool

definition ForeignKey :: "bool \<Rightarrow> field_options" where
  "ForeignKey is_editable = \<lparr>editable = is_editable, auto_now = False, auto_now_add = False\<rparr>"

definition TextField :: field_options where
  "TextField = \<lparr>editable = True, auto_now = False, auto_now_add = False\<rparr>"

definition DateTimeField :: "bool \<Rightarrow> bool \<Rightarrow> field_options" where
  "DateTimeField is_auto_now is_auto_now_add =
     \<lparr>editable = (\<not> (is_auto_now \<or> is_auto_now_add)),
      auto_now = is_auto_now, auto_now_add = is_auto_now_add\<rparr>"

definition document_field :: field_options where
  "document_field = ForeignKey True"

definition user_field :: field_options where
  "user_field = ForeignKey False"

definition addlcomments_field :: field_options where
  "addlcomments_field = TextField"

definition submit_date_field :: field_options where
  "submit_date_field = DateTimeField False True"

text \<open>
  What a date field stores on a save: the current time when the field is \<open>auto_now\<close>, or
  \<open>auto_now_add\<close> and the row is being added; the instance's own value otherwise.
\<close>

definition pre_save :: "field_options \<Rightarrow> bool \<Rightarrow> timestamp \<Rightarrow> timestamp option \<Rightarrow> timestamp option" where
  "pre_save f add t current =
     (if auto_now f \<or> (auto_now_add f \<and> add) then Some t else current)"

text \<open>
  A method of a review: the outcome, the instance as the call leaves it, and the state.
\<close>

type_synonym 'a review_method = "review \<Rightarrow> world \<Rightarrow> (exception + 'a) \<times> review \<times> world"

text \<open>Whether persisting the instance adds a row: it has no key, or no row has its key.\<close>

definition inserts_row :: "review \<Rightarrow> world \<Rightarrow> bool" where
  "inserts_row r w =
     (case review_pk r of None \<Rightarrow> True | Some k \<Rightarrow> review_rows w k = None)"

text \<open>
  \<open>super().save()\<close>, the framework's persist: an instance without a key is inserted under
  the next key; one with a key overwrites its row, or is inserted under that key if
  there is no such row.
\<close>

definition Model_save :: "unit review_method" where
  "Model_save r w =
     (let add = inserts_row r w;
          k = (case review_pk r of None \<Rightarrow> next_pk w | Some k \<Rightarrow> k);
          r' = r\<lparr>review_pk := Some k,
                 submit_date := pre_save submit_date_field add (now w) (submit_date r)\<rparr>
      in (Inr (), r',
          w\<lparr>review_rows := (review_rows w)(k \<mapsto> r'),
            next_pk := (if review_pk r = None then Suc (next_pk w) else next_pk w)\<rparr>))"

text \<open>
  \<open>super().delete()\<close>, the framework's delete: it refuses an instance without a key;
  otherwise it removes the row, clears the instance's key and returns the number of rows
  removed.
\<close>

definition Model_delete :: "nat review_method" where
  "Model_delete r w =
     (case review_pk r of
        None \<Rightarrow>
          (Inl (Exception
             ''Review object can't be deleted because its id attribute is set to None.''),
           r, w)
      | Some k \<Rightarrow>
          (Inr (if review_rows w k = None then 0 else 1),
           r\<lparr>review_pk := None\<rparr>,
           w\<lparr>review_rows := (review_rows w)(k := None)\<rparr>))"

text \<open>
  The keyword arguments of \<open>method_event\<close>, lines 50 to 54 and 72 to 85: the event, and
  for each of actor, action object and target the name of the attribute of the instance
  that gives it, when the decorator names one.
\<close>

record event_arguments =
  event :: event_type
  actor_name :: "string option"
  action_object_name :: "string option"
  target_name :: "string option"

definition save_created :: event_arguments where
  "save_created = \<lparr>event = event_document_review_created, actor_name = Some ''user'',
     action_object_name = Some ''document'', target_name = Some ''self''\<rparr>"

definition save_edited :: event_arguments where
  "save_edited = \<lparr>event = event_document_review_edited, actor_name = None,
     action_object_name = Some ''document'', target_name = Some ''self''\<rparr>"

definition delete_event :: event_arguments where
  "delete_event = \<lparr>event = event_document_review_deleted, actor_name = None,
     action_object_name = None, target_name = Some ''document''\<rparr>"

text \<open>Lines 24 and 25: the two class attributes. No method of the class reads them.\<close>

definition event_created_event :: event_type where
  "event_created_event = event_document_review_created"

definition event_edited_event :: event_type where
  "event_edited_event = event_document_review_created"

text \<open>
  Modelled from the spec: how the event managers of the events app (outside the files at
  hand) read an event's actor, action object and target. A name the decorator gives is
  read as an attribute of the instance, \<open>self\<close> being the instance itself; an argument
  the decorator does not name is left to the event subsystem.
\<close>

definition resolve_attribute :: "review \<Rightarrow> string \<Rightarrow> entity option" where
  "resolve_attribute r name =
     (if name = ''self'' then Some (EReview r)
      else if name = ''user'' then Some (EUser (user r))
      else if name = ''document'' then Some (EDocument (document r))
      else None)"

definition commit_event_arguments :: "event_arguments \<Rightarrow> review \<Rightarrow> world \<Rightarrow> world" where
  "commit_event_arguments a r w =
     event_commit (event a)
       (Option.bind (actor_name a) (resolve_attribute r))
       (Option.bind (action_object_name a) (resolve_attribute r))
       (Option.bind (target_name a) (resolve_attribute r)) w"

text \<open>
  Modelled from the spec: the decorator \<open>method_event\<close> with \<open>EventManagerMethodAfter\<close> (the
  events app, outside the files at hand). The event is a side effect layered around the
  underlying operation: a failure of the operation aborts without emitting the event;
  after a success the event is committed once.
\<close>

definition EventManagerMethodAfter :: "event_arguments \<Rightarrow> 'a review_method \<Rightarrow> 'a review_method" where
  "EventManagerMethodAfter a function r w =
     (case function r w of
        (Inl exception, r', w') \<Rightarrow> (Inl exception, r', w')
      | (Inr result, r', w') \<Rightarrow> (Inr result, r', commit_event_arguments a r' w'))"

text \<open>
  Modelled from the spec: the decorator \<open>method_event\<close> with \<open>EventManagerSave\<close> (the events
  app, outside the files at hand). After a successful persist it commits the \<open>created\<close>
  event when the persist inserted a new row, and the \<open>edited\<close> event when it updated an
  existing one; a failure of the persist aborts without emitting an event.
\<close>

definition EventManagerSave ::
  "event_arguments \<Rightarrow> event_arguments \<Rightarrow> 'a review_method \<Rightarrow> 'a review_method" where
  "EventManagerSave created edited function r w =
     (let is_created = inserts_row r w
      in case function r w of
           (Inl exception, r', w') \<Rightarrow> (Inl exception, r', w')
         | (Inr result, r', w') \<Rightarrow>
             (Inr result, r',
              commit_event_arguments (if is_created then created else edited) r' w'))"

text \<open>Lines 50 to 56 and 72 to 87: the two decorated methods.\<close>

definition Review_delete :: "nat review_method" where
  "Review_delete = EventManagerMethodAfter delete_event Model_delete"

definition Review_save :: "unit review_method" where
  "Review_save = EventManagerSave save_created save_edited Model_save"

text \<open>
  Editing a stored review through a model form: the form's cleaned data is written to
  the instance, field by field, skipping every field that is not editable or that the
  data does not have.
\<close>

record cleaned_data =
  cd_document :: "pk option"
  cd_user :: "auth_user option"
  cd_addlcomments :: "string option"
  cd_submit_date :: "timestamp option"

definition save_form_data :: "field_options \<Rightarrow> 'a option \<Rightarrow> 'a \<Rightarrow> 'a" where
  "save_form_data f new current =
     (if editable f then (case new of Some v \<Rightarrow> v | None \<Rightarrow> current) else current)"

definition construct_instance :: "cleaned_data \<Rightarrow> review \<Rightarrow> review" where
  "construct_instance cd r =
     r\<lparr>document := save_form_data document_field (cd_document cd) (document r),
       user := save_form_data user_field (cd_user cd) (user r),
       addlcomments := save_form_data addlcomments_field (cd_addlcomments cd) (addlcomments r),
       submit_date := (if editable submit_date_field
                       then (case cd_submit_date cd of Some t \<Rightarrow> Some t | None \<Rightarrow> submit_date r)
                       else submit_date r)\<rparr>"

section \<open>Concrete inputs\<close>

definition jdoe :: auth_user where
  "jdoe = \<lparr>username = ''jdoe'', full_name = Some ''Jane Doe''\<rparr>"

definition a_request :: request where
  "a_request = \<lparr>GET = [], POST = [], request_user = jdoe\<rparr>"

definition version_a :: document_version where
  "version_a = \<lparr>version_pk = 11, version_document = 7, timestamp = 50, version_str = ''report.pdf''\<rparr>"

definition version_b :: document_version where
  "version_b = \<lparr>version_pk = 12, version_document = 7, timestamp = 80, version_str = ''report.pdf''\<rparr>"

definition version_c :: document_version where
  "version_c = \<lparr>version_pk = 13, version_document = 8, timestamp = 60, version_str = ''notes.txt''\<rparr>"

definition a_world :: world where
  "a_world = \<lparr>review_rows = Map.empty, next_pk = 1, now = 100,
     document_versions = [version_a, version_c, version_b], actions = [],
     recent_documents = {}, task_queue = [], messages = []\<rparr>"

definition unsaved_review :: review where
  "unsaved_review = \<lparr>review_pk = None, document = 7, user = jdoe,
     addlcomments = ''Looks fine'', submit_date = None\<rparr>"

definition stored_review :: review where
  "stored_review = \<lparr>review_pk = Some 1, document = 7, user = jdoe,
     addlcomments = ''Looks fine'', submit_date = Some 40\<rparr>"

definition a_world_with_review :: world where
  "a_world_with_review = a_world\<lparr>review_rows := [1 \<mapsto> stored_review], next_pk := 2\<rparr>"

definition revert_raising :: "document_version \<Rightarrow> auth_user \<Rightarrow> unit effect" where
  "revert_raising v u w = (Inl (Exception ''storage offline''), w)"

definition revert_interrupted :: "document_version \<Rightarrow> auth_user \<Rightarrow> unit effect" where
  "revert_interrupted v u w = (Inl (BaseException ''KeyboardInterrupt''), w)"

definition revert_unprintable :: "document_version \<Rightarrow> auth_user \<Rightarrow> unit effect" where
  "revert_unprintable v u w =
     (Inl (ExceptionStrRaises (Exception ''__str__ returned non-string'')), w)"

definition revert_returning :: "document_version \<Rightarrow> auth_user \<Rightarrow> unit effect" where
  "revert_returning v u w =
     (Inr (), w\<lparr>document_versions := filter (\<lambda>x. timestamp x \<le> timestamp v) (document_versions w)\<rparr>)"

definition dispatch_rendering :: "request \<Rightarrow> string effect" where
  "dispatch_rendering req w = (Inr ''<html>preview</html>'', w)"

section \<open>Properties of the download parameter\<close>

lemma QueryDict_get_Some:
  "QueryDict_lookup q key = Some v \<Longrightarrow> QueryDict_get q key d = Str v"
  by (simp add: QueryDict_get_def)

lemma QueryDict_get_None:
  "QueryDict_lookup q key = None \<Longrightarrow> QueryDict_get q key d = d"
  by (simp add: QueryDict_get_def)

lemma is_true_literal_Str:
  "is_true_literal (Str v) = (v = ''true'' \<or> v = ''True'')"
  by (simp add: is_true_literal_def)

lemma is_true_literal_False: "\<not> is_true_literal (Bool False)"
  by (simp add: is_true_literal_def)

text \<open>
  Claim C4. Whatever text \<open>v\<close> the handler finds for \<open>preserve_extension\<close> (in the query
  string, or in the form body when the query string does not have the key), the flag is
  true exactly when \<open>v\<close> is \<open>true\<close> or \<open>True\<close>; when neither the query string nor the body
  has the key the flag is false. In particular \<open>TRUE\<close>, \<open>1\<close> and the empty text give
  false.
\<close>

theorem preserve_extension_literal:
  "(QueryDict_lookup (GET req) ''preserve_extension'' = Some v
        \<longrightarrow> preserve_extension req = (v = ''true'' \<or> v = ''True''))
   \<and> (QueryDict_lookup (GET req) ''preserve_extension'' = None
        \<and> QueryDict_lookup (POST req) ''preserve_extension'' = Some v
        \<longrightarrow> preserve_extension req = (v = ''true'' \<or> v = ''True''))
   \<and> (QueryDict_lookup (GET req) ''preserve_extension'' = None
        \<and> QueryDict_lookup (POST req) ''preserve_extension'' = None
        \<longrightarrow> \<not> preserve_extension req)"
  by (simp add: preserve_extension_def raw_preserve_extension_def QueryDict_get_def
      is_true_literal_def)

theorem preserve_extension_literal_witness:
  "preserve_extension \<lparr>GET = [(''preserve_extension'', ''True'')], POST = [],
      request_user = \<lparr>username = ''jdoe'', full_name = None\<rparr>\<rparr>
   \<and> preserve_extension \<lparr>GET = [], POST = [(''preserve_extension'', ''true'')],
      request_user = \<lparr>username = ''jdoe'', full_name = None\<rparr>\<rparr>
   \<and> \<not> preserve_extension \<lparr>GET = [(''preserve_extension'', ''TRUE'')], POST = [],
      request_user = \<lparr>username = ''jdoe'', full_name = None\<rparr>\<rparr>
   \<and> \<not> preserve_extension \<lparr>GET = [(''preserve_extension'', ''1'')], POST = [],
      request_user = \<lparr>username = ''jdoe'', full_name = None\<rparr>\<rparr>
   \<and> \<not> preserve_extension \<lparr>GET = [(''preserve_extension'', [])], POST = [],
      request_user = \<lparr>username = ''jdoe'', full_name = None\<rparr>\<rparr>
   \<and> \<not> preserve_extension \<lparr>GET = [], POST = [],
      request_user = \<lparr>username = ''jdoe'', full_name = None\<rparr>\<rparr>"
  using
    preserve_extension_literal [of "\<lparr>GET = [(''preserve_extension'', ''True'')], POST = [],
      request_user = \<lparr>username = ''jdoe'', full_name = None\<rparr>\<rparr>" "''True''"]
    preserve_extension_literal [of "\<lparr>GET = [], POST = [(''preserve_extension'', ''true'')],
      request_user = \<lparr>username = ''jdoe'', full_name = None\<rparr>\<rparr>" "''true''"]
    preserve_extension_literal [of "\<lparr>GET = [(''preserve_extension'', ''TRUE'')], POST = [],
      request_user = \<lparr>username = ''jdoe'', full_name = None\<rparr>\<rparr>" "''TRUE''"]
    preserve_extension_literal [of "\<lparr>GET = [(''preserve_extension'', ''1'')], POST = [],
      request_user = \<lparr>username = ''jdoe'', full_name = None\<rparr>\<rparr>" "''1''"]
    preserve_extension_literal [of "\<lparr>GET = [(''preserve_extension'', [])], POST = [],
      request_user = \<lparr>username = ''jdoe'', full_name = None\<rparr>\<rparr>" "[]"]
    preserve_extension_literal [of "\<lparr>GET = [], POST = [],
      request_user = \<lparr>username = ''jdoe'', full_name = None\<rparr>\<rparr>" "[]"]
  by (simp add: QueryDict_lookup_def)

text \<open>
  Claim C10. When the query string has the key, the value read is the query string's and
  the flag is the same whatever the form body holds; the body's value is what is read
  only when the query string does not have the key.
\<close>

theorem query_string_takes_precedence:
  "(QueryDict_lookup (GET req) ''preserve_extension'' = Some v
        \<longrightarrow> raw_preserve_extension req = Str v
          \<and> (\<forall>body. preserve_extension (req\<lparr>POST := body\<rparr>) = preserve_extension req))
   \<and> (QueryDict_lookup (GET req) ''preserve_extension'' = None
        \<longrightarrow> raw_preserve_extension req
            = QueryDict_get (POST req) ''preserve_extension'' (Bool False))"
  by (simp add: preserve_extension_def raw_preserve_extension_def QueryDict_get_def)

theorem query_string_takes_precedence_witness:
  "raw_preserve_extension \<lparr>GET = [(''preserve_extension'', ''false'')],
      POST = [(''preserve_extension'', ''true'')],
      request_user = \<lparr>username = ''jdoe'', full_name = None\<rparr>\<rparr> = Str ''false''
   \<and> \<not> preserve_extension \<lparr>GET = [(''preserve_extension'', ''false'')],
      POST = [(''preserve_extension'', ''true'')],
      request_user = \<lparr>username = ''jdoe'', full_name = None\<rparr>\<rparr>
   \<and> raw_preserve_extension \<lparr>GET = [(''compressed'', ''on'')],
      POST = [(''preserve_extension'', ''true'')],
      request_user = \<lparr>username = ''jdoe'', full_name = None\<rparr>\<rparr> = Str ''true''"
  using
    query_string_takes_precedence [of "\<lparr>GET = [(''preserve_extension'', ''false'')],
      POST = [(''preserve_extension'', ''true'')],
      request_user = \<lparr>username = ''jdoe'', full_name = None\<rparr>\<rparr>" "''false''"]
    query_string_takes_precedence [of "\<lparr>GET = [(''compressed'', ''on'')],
      POST = [(''preserve_extension'', ''true'')],
      request_user = \<lparr>username = ''jdoe'', full_name = None\<rparr>\<rparr>" "''x''"]
  by (simp add: QueryDict_lookup_def QueryDict_get_def preserve_extension_def
      is_true_literal_def)

text \<open>
  Claim C6. The label is the user's full name when there is one and it is not empty, and
  the user's login name otherwise.
\<close>

theorem get_user_label_full_name_or_username:
  "get_user_label u =
     (case get_full_name u of
        None \<Rightarrow> Some (username u)
      | Some n \<Rightarrow> if n = [] then Some (username u) else Some n)"
  by (simp add: get_user_label_def truthy_def split: option.split)

theorem get_user_label_full_name_or_username_witness:
  "get_user_label \<lparr>username = ''jdoe'', full_name = Some ''Jane Doe''\<rparr> = Some ''Jane Doe''
   \<and> get_user_label \<lparr>username = ''jdoe'', full_name = Some []\<rparr> = Some ''jdoe''
   \<and> get_user_label \<lparr>username = ''jdoe'', full_name = None\<rparr> = Some ''jdoe''"
  using
    get_user_label_full_name_or_username [of "\<lparr>username = ''jdoe'', full_name = Some ''Jane Doe''\<rparr>"]
    get_user_label_full_name_or_username [of "\<lparr>username = ''jdoe'', full_name = Some []\<rparr>"]
    get_user_label_full_name_or_username [of "\<lparr>username = ''jdoe'', full_name = None\<rparr>"]
  by (simp add: get_full_name_def)

section \<open>Properties of the request handlers\<close>

text \<open>
  Claim C1, as the code has it. When revert raises an instance of \<open>Exception\<close> whose
  description can be formed, the handler's action returns normally and the last
  notification added is an error whose text ends with that description. When revert
  raises an exception that is not an instance of \<open>Exception\<close>, such as
  \<open>KeyboardInterrupt\<close> or \<open>SystemExit\<close>, the exception propagates and no notification is
  added. When revert returns, the action returns normally and the last notification
  added is the success notification.
\<close>

theorem view_action_catches_Exception:
  "(\<forall>e w' description.
        revert obj (request_user req) w = (Inl e, w') \<and> isinstance_Exception e
        \<and> str e = Inr description \<longrightarrow>
        view_action revert obj req w
          = (Inr (),
             w'\<lparr>messages := messages w' @
                  [\<lparr>level = ERROR,
                    message_text = ''Error reverting document version; '' @ description\<rparr>]\<rparr>))
   \<and> (\<forall>e w'. revert obj (request_user req) w = (Inl e, w') \<and> \<not> isinstance_Exception e \<longrightarrow>
        view_action revert obj req w = (Inl e, w'))
   \<and> (\<forall>w'. revert obj (request_user req) w = (Inr (), w') \<longrightarrow>
        view_action revert obj req w
          = (Inr (),
             w'\<lparr>messages := messages w' @
                  [\<lparr>level = SUCCESS,
                    message_text = ''Document version reverted successfully''\<rparr>]\<rparr>))"
  by (simp add: view_action_def messages_error_def messages_success_def)

theorem view_action_catches_Exception_witness:
  "view_action revert_raising version_a a_request a_world
     = (Inr (),
        a_world\<lparr>messages :=
          [\<lparr>level = ERROR,
            message_text = ''Error reverting document version; storage offline''\<rparr>]\<rparr>)
   \<and> view_action revert_interrupted version_a a_request a_world
     = (Inl (BaseException ''KeyboardInterrupt''), a_world)
   \<and> fst (view_action revert_returning version_a a_request a_world) = Inr ()
   \<and> messages (snd (view_action revert_returning version_a a_request a_world))
     = [\<lparr>level = SUCCESS, message_text = ''Document version reverted successfully''\<rparr>]"
  using
    view_action_catches_Exception [of revert_raising version_a a_request a_world]
    view_action_catches_Exception [of revert_interrupted version_a a_request a_world]
    view_action_catches_Exception [of revert_returning version_a a_request a_world]
  by (simp add: revert_raising_def revert_interrupted_def revert_returning_def a_world_def)

text \<open>
  A revert interrupted by \<open>KeyboardInterrupt\<close> is not caught: the exception leaves the
  handler and no notification is shown. Nor does the request complete when the caught
  exception's own \<open>__str__\<close> raises while the error text is formatted.
\<close>

theorem view_action_KeyboardInterrupt_counterexample:
  "fst (view_action revert_interrupted version_a a_request a_world)
     = Inl (BaseException ''KeyboardInterrupt'')
   \<and> messages (snd (view_action revert_interrupted version_a a_request a_world)) = []
   \<and> fst (view_action revert_unprintable version_a a_request a_world)
     = Inl (Exception ''__str__ returned non-string'')
   \<and> messages (snd (view_action revert_unprintable version_a a_request a_world)) = []"
  by (simp add: view_action_def revert_interrupted_def revert_unprintable_def a_world_def)

text \<open>
  Claim C9. When the generic detail view serves the request, the handler returns its
  response, the version's document is marked as recently accessed for the requesting
  user, and one entry is added to the audit log: the document viewed event, with the
  requesting user as actor and the document as target. When the generic view raises,
  the exception is passed on and nothing is marked or logged.
\<close>

theorem dispatch_marks_and_logs:
  "(\<forall>result w'. super_dispatch req w = (Inr result, w') \<longrightarrow>
      dispatch super_dispatch obj req w
        = (Inr result,
           w'\<lparr>recent_documents :=
                 insert (request_user req, version_document obj) (recent_documents w'),
               actions := actions w' @
                 [\<lparr>verb = event_document_view, actor = Some (EUser (request_user req)),
                   action_object = None,
                   target = Some (EDocument (version_document obj))\<rparr>]\<rparr>))
   \<and> (\<forall>e w'. super_dispatch req w = (Inl e, w') \<longrightarrow>
      dispatch super_dispatch obj req w = (Inl e, w'))"
  by (simp add: dispatch_def event_commit_def add_as_recent_document_for_user_def)

theorem dispatch_marks_and_logs_witness:
  "fst (dispatch dispatch_rendering version_a a_request a_world) = Inr ''<html>preview</html>''
   \<and> (jdoe, 7) \<in> recent_documents (snd (dispatch dispatch_rendering version_a a_request a_world))
   \<and> actions (snd (dispatch dispatch_rendering version_a a_request a_world))
       = [\<lparr>verb = event_document_view, actor = Some (EUser jdoe), action_object = None,
           target = Some (EDocument 7)\<rparr>]"
  using dispatch_marks_and_logs [of dispatch_rendering a_request a_world version_a]
  by (simp add: dispatch_rendering_def a_request_def a_world_def version_a_def)

text \<open>The queue after the action has run over a selection, by induction on the selection.\<close>

lemma task_queue_multiple_object_view_action:
  "task_queue (multiple_object_view_action object_list w)
     = task_queue w @
       map (\<lambda>v. \<lparr>task_name = ''task_update_page_count'',
                  kwargs = [(''version_id'', version_pk v)]\<rparr>) object_list"
  by (induction object_list arbitrary: w) (simp_all add: object_action_def apply_async_def)

lemma get_extra_context_single:
  "get_extra_context [v] ''title''
     = Some (CText (''Recalculate the page count of the document version: ''
          @ version_str v @ ''?''))
   \<and> get_extra_context [v] ''object'' = Some (CObject (Some v))"
  by (simp add: get_extra_context_def first_def format_version_def)

lemma get_extra_context_plural:
  "length queryset \<noteq> 1 \<Longrightarrow>
   get_extra_context queryset ''title''
     = Some (CText ''Recalculate the page count of the selected document versions?'')
   \<and> get_extra_context queryset ''object'' = None"
  by (simp add: get_extra_context_def ungettext_def)

text \<open>
  Claim C5. Running the action over a selection of N versions adds exactly N jobs to
  the queue, the i-th carrying the key of the i-th version as \<open>version_id\<close>. The title of
  the confirmation is the singular one naming the object when exactly one version is
  selected, and the plural one otherwise.
\<close>

theorem page_count_jobs_and_title:
  "task_queue (multiple_object_view_action object_list w)
     = task_queue w @
       map (\<lambda>v. \<lparr>task_name = ''task_update_page_count'',
                  kwargs = [(''version_id'', version_pk v)]\<rparr>) object_list
   \<and> length (task_queue (multiple_object_view_action object_list w))
     = length (task_queue w) + length object_list
   \<and> (\<forall>v. object_list = [v] \<longrightarrow>
        get_extra_context object_list ''title''
          = Some (CText (''Recalculate the page count of the document version: ''
               @ version_str v @ ''?''))
        \<and> get_extra_context object_list ''object'' = Some (CObject (Some v)))
   \<and> (length object_list \<noteq> 1 \<longrightarrow>
        get_extra_context object_list ''title''
          = Some (CText ''Recalculate the page count of the selected document versions?'')
        \<and> get_extra_context object_list ''object'' = None)"
  using get_extra_context_single get_extra_context_plural [of object_list]
  by (simp add: task_queue_multiple_object_view_action)

theorem page_count_jobs_and_title_witness:
  "task_queue (multiple_object_view_action [version_a, version_b] a_world)
     = [\<lparr>task_name = ''task_update_page_count'', kwargs = [(''version_id'', 11)]\<rparr>,
        \<lparr>task_name = ''task_update_page_count'', kwargs = [(''version_id'', 12)]\<rparr>]
   \<and> get_extra_context [version_a] ''title''
     = Some (CText ''Recalculate the page count of the document version: report.pdf?'')
   \<and> get_extra_context [version_a, version_b] ''title''
     = Some (CText ''Recalculate the page count of the selected document versions?'')
   \<and> get_extra_context [] ''title''
     = Some (CText ''Recalculate the page count of the selected document versions?'')"
  using
    page_count_jobs_and_title [of "[version_a, version_b]" a_world]
    page_count_jobs_and_title [of "[version_a]" a_world]
    page_count_jobs_and_title [of "[]" a_world]
  by (simp add: a_world_def version_a_def version_b_def)

text \<open>Sorting by a key and reversing gives the keys in descending order.\<close>

lemma sorted_wrt_order_by_desc:
  "sorted_wrt (\<lambda>a b. f b \<le> f a) (order_by_desc f xs)"
proof -
  have "sorted (map f (sort_key f xs))"
    by (rule sorted_sort_key)
  then have "sorted_wrt (\<lambda>a b. f a \<le> f b) (sort_key f xs)"
    by (simp add: sorted_map)
  then show ?thesis
    by (simp add: order_by_desc_def sorted_wrt_rev)
qed

lemma mset_order_by_desc: "mset (order_by_desc f xs) = mset xs"
  by (simp add: order_by_desc_def)

text \<open>
  Claim C7. The list handler's queryset holds exactly the versions of the document, each
  as often as the table does, in descending order of timestamp.
\<close>

theorem get_source_queryset_newest_first:
  "sorted_wrt (\<lambda>a b. timestamp b \<le> timestamp a) (fst (get_source_queryset d req w))
   \<and> mset (fst (get_source_queryset d req w))
     = filter_mset (\<lambda>v. version_document v = d) (mset (document_versions w))"
  by (simp add: get_source_queryset_def get_document_def versions_def
      add_as_recent_document_for_user_def sorted_wrt_order_by_desc mset_order_by_desc)

theorem get_source_queryset_newest_first_witness:
  "fst (get_source_queryset 7 a_request a_world) = [version_b, version_a]
   \<and> sorted_wrt (\<lambda>a b. timestamp b \<le> timestamp a) (fst (get_source_queryset 7 a_request a_world))"
  using get_source_queryset_newest_first [of 7 a_request a_world]
  by (simp add: get_source_queryset_def get_document_def versions_def order_by_desc_def
      add_as_recent_document_for_user_def a_world_def version_a_def version_b_def
      version_c_def)

section \<open>Properties of the review's methods\<close>

text \<open>What the decorators do around a method that returns, and around one that raises.\<close>

lemma EventManagerMethodAfter_returns:
  "function r w = (Inr result, r', w') \<Longrightarrow>
   EventManagerMethodAfter a function r w = (Inr result, r', commit_event_arguments a r' w')"
  by (simp add: EventManagerMethodAfter_def)

lemma EventManagerMethodAfter_raises:
  "function r w = (Inl e, r', w') \<Longrightarrow>
   EventManagerMethodAfter a function r w = (Inl e, r', w')"
  by (simp add: EventManagerMethodAfter_def)

lemma EventManagerSave_returns:
  "function r w = (Inr result, r', w') \<Longrightarrow>
   EventManagerSave created edited function r w
     = (Inr result, r',
        commit_event_arguments (if inserts_row r w then created else edited) r' w')"
  by (simp add: EventManagerSave_def)

lemma EventManagerSave_raises:
  "function r w = (Inl e, r', w') \<Longrightarrow>
   EventManagerSave created edited function r w = (Inl e, r', w')"
  by (simp add: EventManagerSave_def)

lemma actions_commit_event_arguments:
  "actions (commit_event_arguments a r w)
     = actions w @
       [\<lparr>verb = event a,
         actor = Option.bind (actor_name a) (resolve_attribute r),
         action_object = Option.bind (action_object_name a) (resolve_attribute r),
         target = Option.bind (target_name a) (resolve_attribute r)\<rparr>]"
  by (simp add: commit_event_arguments_def event_commit_def)

lemma review_rows_commit_event_arguments:
  "review_rows (commit_event_arguments a r w) = review_rows w"
  by (simp add: commit_event_arguments_def event_commit_def)

lemma Model_save_returns:
  "Model_save r w =
     (Inr (),
      r\<lparr>review_pk := Some (case review_pk r of None \<Rightarrow> next_pk w | Some k \<Rightarrow> k),
        submit_date := (if inserts_row r w then Some (now w) else submit_date r)\<rparr>,
      w\<lparr>review_rows := (review_rows w)
           ((case review_pk r of None \<Rightarrow> next_pk w | Some k \<Rightarrow> k) \<mapsto>
            r\<lparr>review_pk := Some (case review_pk r of None \<Rightarrow> next_pk w | Some k \<Rightarrow> k),
              submit_date := (if inserts_row r w then Some (now w) else submit_date r)\<rparr>),
        next_pk := (if review_pk r = None then Suc (next_pk w) else next_pk w)\<rparr>)"
  by (simp add: Model_save_def Let_def pre_save_def submit_date_field_def DateTimeField_def)

text \<open>
  Claim C2. A save returns normally and leaves the instance stored under its key, with
  the user and the document it had. When it inserts a new row, one entry is added to the
  audit log: review created, with the review's user as actor, its document as action
  object and the saved review as target. When it updates an existing row, the entry
  added is review edited, with the document as action object and the saved review as
  target.
\<close>

theorem Review_save_event:
  "(case Review_save r w of
      (outcome, r', w') \<Rightarrow>
        outcome = Inr () \<and> user r' = user r \<and> document r' = document r
        \<and> (\<exists>k. review_pk r' = Some k \<and> review_rows w' k = Some r')
        \<and> (inserts_row r w \<longrightarrow>
             actions w' = actions w @
               [\<lparr>verb = event_document_review_created, actor = Some (EUser (user r)),
                 action_object = Some (EDocument (document r)),
                 target = Some (EReview r')\<rparr>])
        \<and> (\<not> inserts_row r w \<longrightarrow>
             actions w' = actions w @
               [\<lparr>verb = event_document_review_edited, actor = None,
                 action_object = Some (EDocument (document r)),
                 target = Some (EReview r')\<rparr>]))"
  unfolding Review_save_def
  by (simp add: EventManagerSave_returns [OF Model_save_returns]
      actions_commit_event_arguments review_rows_commit_event_arguments
      save_created_def save_edited_def resolve_attribute_def)

theorem Review_save_event_witness:
  "actions (snd (snd (Review_save unsaved_review a_world)))
     = [\<lparr>verb = event_document_review_created, actor = Some (EUser jdoe),
         action_object = Some (EDocument 7),
         target = Some (EReview (unsaved_review\<lparr>review_pk := Some 1, submit_date := Some 100\<rparr>))\<rparr>]
   \<and> actions (snd (snd (Review_save (stored_review\<lparr>addlcomments := ''Reworded''\<rparr>)
         a_world_with_review)))
     = [\<lparr>verb = event_document_review_edited, actor = None,
         action_object = Some (EDocument 7),
         target = Some (EReview (stored_review\<lparr>addlcomments := ''Reworded''\<rparr>))\<rparr>]"
  using
    Review_save_event [where r = unsaved_review and w = a_world]
    Review_save_event [where r = "stored_review\<lparr>addlcomments := ''Reworded''\<rparr>"
      and w = a_world_with_review]
  by (simp add: Review_save_def EventManagerSave_returns [OF Model_save_returns]
      inserts_row_def unsaved_review_def stored_review_def a_world_def
      a_world_with_review_def jdoe_def)

lemma Model_delete_unsaved:
  "review_pk r = None \<Longrightarrow>
   Model_delete r w =
     (Inl (Exception
        ''Review object can't be deleted because its id attribute is set to None.''),
      r, w)"
  by (simp add: Model_delete_def)

lemma Model_delete_saved:
  "review_pk r = Some k \<Longrightarrow>
   Model_delete r w =
     (Inr (if review_rows w k = None then 0 else 1), r\<lparr>review_pk := None\<rparr>,
      w\<lparr>review_rows := (review_rows w)(k := None)\<rparr>)"
  by (simp add: Model_delete_def)

text \<open>
  Claim C3, as the code has it. A delete whose underlying removal completes without
  error removes the review's row and adds exactly one entry to the audit log: review
  deleted, with the review's document as target. A delete whose removal raises passes
  the exception on, adds no entry and removes no row.
\<close>

theorem Review_delete_event_after_removal:
  "(case Review_delete r w of
      (Inr n, r', w') \<Rightarrow>
        actions w' = actions w @
          [\<lparr>verb = event_document_review_deleted, actor = None, action_object = None,
            target = Some (EDocument (document r))\<rparr>]
        \<and> (\<exists>k. review_pk r = Some k \<and> review_rows w' = (review_rows w)(k := None))
    | (Inl e, r', w') \<Rightarrow>
        actions w' = actions w \<and> review_rows w' = review_rows w \<and> review_pk r = None)"
proof (cases "review_pk r")
  case None
  then show ?thesis
    unfolding Review_delete_def
    by (simp add: EventManagerMethodAfter_raises [OF Model_delete_unsaved])
next
  case (Some k)
  then show ?thesis
    unfolding Review_delete_def
    by (simp add: EventManagerMethodAfter_returns [OF Model_delete_saved]
        actions_commit_event_arguments review_rows_commit_event_arguments
        delete_event_def resolve_attribute_def)
qed

theorem Review_delete_event_after_removal_witness:
  "fst (Review_delete stored_review a_world_with_review) = Inr 1
   \<and> actions (snd (snd (Review_delete stored_review a_world_with_review)))
     = [\<lparr>verb = event_document_review_deleted, actor = None, action_object = None,
         target = Some (EDocument 7)\<rparr>]
   \<and> review_rows (snd (snd (Review_delete stored_review a_world_with_review))) 1 = None"
  using Review_delete_event_after_removal [where r = stored_review and w = a_world_with_review]
  by (simp add: Review_delete_def EventManagerMethodAfter_returns [OF Model_delete_saved]
      stored_review_def a_world_with_review_def a_world_def)

text \<open>
  Deleting an instance that was never saved raises, and the audit log stays empty: this
  delete does not emit exactly one event.
\<close>

theorem Review_delete_unsaved_counterexample:
  "fst (Review_delete unsaved_review a_world)
     = Inl (Exception
         ''Review object can't be deleted because its id attribute is set to None.'')
   \<and> actions (snd (snd (Review_delete unsaved_review a_world))) = []
   \<and> length (actions (snd (snd (Review_delete unsaved_review a_world))))
     \<noteq> length (actions a_world) + 1"
  by (simp add: Review_delete_def EventManagerMethodAfter_raises [OF Model_delete_unsaved]
      unsaved_review_def a_world_def)

lemma construct_instance_keeps:
  "submit_date (construct_instance cd r) = submit_date r
   \<and> user (construct_instance cd r) = user r
   \<and> review_pk (construct_instance cd r) = review_pk r"
  by (simp add: construct_instance_def save_form_data_def user_field_def ForeignKey_def
      submit_date_field_def DateTimeField_def)

text \<open>
  Claim C8. A save that inserts a review stores the current time as its submission
  timestamp, whatever the instance held, and stores its user. A later save of a stored
  review that went through a form edit, with any form data at all, in particular with
  a new comment text, stores the same submission timestamp and the same user.
\<close>

theorem Review_submit_date_and_user_fixed:
  "(inserts_row r w \<longrightarrow>
      (case Review_save r w of
         (outcome, r', w') \<Rightarrow>
           submit_date r' = Some (now w) \<and> user r' = user r
           \<and> (\<exists>k. review_pk r' = Some k \<and> review_rows w' k = Some r')))
   \<and> (\<forall>k stored. review_rows w k = Some stored \<and> review_pk stored = Some k \<longrightarrow>
        (case Review_save (construct_instance cd stored) w of
           (outcome, r', w') \<Rightarrow>
             review_rows w' k = Some r'
             \<and> submit_date r' = submit_date stored \<and> user r' = user stored)
        \<and> (case Review_save (stored\<lparr>addlcomments := text\<rparr>) w of
             (outcome, r', w') \<Rightarrow>
               review_rows w' k = Some r' \<and> addlcomments r' = text
               \<and> submit_date r' = submit_date stored \<and> user r' = user stored))"
  unfolding Review_save_def
  by (simp add: EventManagerSave_returns [OF Model_save_returns]
      review_rows_commit_event_arguments construct_instance_keeps inserts_row_def)

theorem Review_submit_date_and_user_fixed_witness:
  "submit_date (fst (snd (Review_save (unsaved_review\<lparr>submit_date := Some 3\<rparr>) a_world)))
     = Some 100
   \<and> review_rows (snd (snd (Review_save
        (construct_instance \<lparr>cd_document = None, cd_user = Some \<lparr>username = ''eve'', full_name = None\<rparr>,
           cd_addlcomments = Some ''Reworded'', cd_submit_date = Some 99\<rparr> stored_review)
        a_world_with_review))) 1
     = Some (stored_review\<lparr>addlcomments := ''Reworded''\<rparr>)"
  using
    Review_submit_date_and_user_fixed [where r = "unsaved_review\<lparr>submit_date := Some 3\<rparr>"
      and w = a_world]
    Review_submit_date_and_user_fixed [where w = a_world_with_review
      and cd = "\<lparr>cd_document = None,
         cd_user = Some \<lparr>username = ''eve'', full_name = None\<rparr>,
         cd_addlcomments = Some ''Reworded'', cd_submit_date = Some 99\<rparr>",
      THEN conjunct2, rule_format, where k = 1 and stored = stored_review]
  by (simp add: Review_save_def EventManagerSave_returns [OF Model_save_returns]
      review_rows_commit_event_arguments inserts_row_def construct_instance_def
      save_form_data_def user_field_def document_field_def addlcomments_field_def
      TextField_def ForeignKey_def submit_date_field_def DateTimeField_def
      unsaved_review_def stored_review_def a_world_def a_world_with_review_def jdoe_def)

end
